theory Spec2Isabelle
  imports Main "HOL-Library.Word" "HOL-Library.AList"
begin

unbundle bit_operations_syntax

section \<open>Bytes, errors and Go's built-ins\<close>

type_synonym byte = "8 word"
type_synonym bytes = "byte list"

text \<open>
  Every error value that the key store returns or passes on. The two \<open>fmt.Errorf\<close>
  errors of \<open>keystore.go\<close> carry the source's message in a comment; the others stand
  for the errors of the libraries the key store calls.
\<close>

datatype error =
    InvalidEncryptedData  \<comment> \<open>"Invalid encrypted data" (\<open>DecryptData\<close>)\<close>
  | KeyNotFound           \<comment> \<open>"Public key not found in the key store" (\<open>UnlockKey\<close>)\<close>
  | NotInCache            \<comment> \<open>"Public key not found in the cache.  Is it unlocked?" (\<open>SignElem\<close>)\<close>
  | RandPanic             \<comment> \<open>panic("reading from crypto/rand failed: ...")\<close>
  | ScryptError           \<comment> \<open>error of \<open>scrypt.Key\<close> (invalid cost parameters)\<close>
  | NotExist              \<comment> \<open>an error for which \<open>os.IsNotExist\<close> holds\<close>
  | IOError               \<comment> \<open>any other error of the file system\<close>
  | LockError             \<comment> \<open>error of \<open>flock.Lock\<close>\<close>
  | JSONError             \<comment> \<open>error of \<open>json.Marshal\<close> / \<open>json.Unmarshal\<close>\<close>
  | DecompressError       \<comment> \<open>error of \<open>Point.Decompress\<close> / \<open>Signature.Decompress\<close>\<close>

text \<open>
  Go's \<open>copy(dst, src)\<close>: the first \<open>min (len dst) (len src)\<close> elements of \<open>dst\<close>
  are replaced by those of \<open>src\<close>; the rest of \<open>dst\<close> stays.
\<close>

definition go_copy :: "'a list \<Rightarrow> 'a list \<Rightarrow> 'a list" where
  "go_copy dst src = take (length dst) src @ drop (length src) dst"

text \<open>A zero-initialised array \<open>[n]byte\<close>.\<close>

definition zero_array :: "nat \<Rightarrow> bytes" where
  "zero_array n = replicate n 0"

text \<open>Go's slice expression \<open>s[lo:hi]\<close>, for \<open>lo \<le> hi \<le> len s\<close> (it panics otherwise).\<close>

definition slice :: "'a list \<Rightarrow> nat \<Rightarrow> nat \<Rightarrow> 'a list" where
  "slice s lo hi = take (hi - lo) (drop lo s)"

section \<open>Field hashing of a message (\<open>mimc7HashBytes\<close>)\<close>

text \<open>
  Modelled from the spec: \<open>babyjub.SetBigIntFromLEBytes\<close> is code of the repository that
  is not among the sources at hand. The spec says of it: "interpret each chunk as an
  unsigned little-endian integer". A \<open>big.Int\<close> is an unbounded integer.
\<close>

fun SetBigIntFromLEBytes :: "bytes \<Rightarrow> int" where
  "SetBigIntFromLEBytes [] = 0"
| "SetBigIntFromLEBytes (b # bs) = uint b + 256 * SetBigIntFromLEBytes bs"

text \<open>
  The first loop of \<open>mimc7HashBytes\<close>:
  \<^verbatim>\<open>for i := 0; i < len(msg)/n; i++ { ... msg[n*i:n*(i+1)] ... append(msgElems, v) }\<close>
  with \<open>n = 31\<close>, as a recursion on the loop counter.
\<close>

function msgElems_loop :: "bytes \<Rightarrow> nat \<Rightarrow> int list \<Rightarrow> int list" where
  "msgElems_loop msg i msgElems =
     (if i < length msg div 31
      then msgElems_loop msg (i + 1)
             (msgElems @ [SetBigIntFromLEBytes (slice msg (31 * i) (31 * (i + 1)))])
      else msgElems)"
  by pat_completeness auto
termination
  by (relation "measure (\<lambda>(msg, i, msgElems). length msg div 31 - i)") auto

text \<open>
  The elements handed to \<open>mimc7.Hash\<close>: the loop, then
  \<^verbatim>\<open>if len(msg)%n != 0 { ... msg[len(msg)/n:] ... append(msgElems, v) }\<close>
\<close>

definition msgElems :: "bytes \<Rightarrow> int list" where
  "msgElems msg =
     (let elems = msgElems_loop msg 0 []
      in if length msg mod 31 \<noteq> 0
         then elems @ [SetBigIntFromLEBytes (slice msg (length msg div 31) (length msg))]
         else elems)"

text \<open>
  \<open>mimc7.Hash(msgElems, nil)\<close> is the hash of the library \<open>mimc7\<close>, a parameter here.
\<close>

definition mimc7HashBytes :: "(int list \<Rightarrow> 'h) \<Rightarrow> bytes \<Rightarrow> 'h" where
  "mimc7HashBytes Hash msg = Hash (msgElems msg)"

text \<open>
  The chunking as the specification words it: consecutive 31-byte chunks, the final one
  possibly shorter, each read as an unsigned little-endian integer.
\<close>

fun spec_chunks :: "nat \<Rightarrow> bytes \<Rightarrow> bytes list" where
  "spec_chunks 0 msg = []"
| "spec_chunks (Suc k) msg =
     (if msg = [] then [] else take 31 msg # spec_chunks k (drop 31 msg))"

definition spec_field_elems :: "bytes \<Rightarrow> int list" where
  "spec_field_elems msg = map SetBigIntFromLEBytes (spec_chunks (length msg) msg)"

section \<open>Encryption at rest (\<open>EncryptData\<close>, \<open>DecryptData\<close>)\<close>

definition StandardScryptN :: int where "StandardScryptN = 2 ^ 18"
definition StandardScryptP :: int where "StandardScryptP = 1"
definition LightScryptN :: int where "LightScryptN = 2 ^ 12"
definition LightScryptP :: int where "LightScryptP = 6"
definition scryptR :: int where "scryptR = 8"
definition scryptDKLen :: int where "scryptDKLen = 32"

text \<open>
  \<open>KeyStoreParams\<close>. Its fields are \<open>ScryptN\<close> and \<open>ScryptP\<close> in the source; they
  carry a prefix here, since \<open>EncryptedData\<close> has fields of the same names.
\<close>

record KeyStoreParams =
  params_ScryptN :: int
  params_ScryptP :: int

definition LightKeyStoreParams :: KeyStoreParams where
  "LightKeyStoreParams = \<lparr>params_ScryptN = LightScryptN, params_ScryptP = LightScryptP\<rparr>"

definition StandardKeyStoreParams :: KeyStoreParams where
  "StandardKeyStoreParams =
     \<lparr>params_ScryptN = StandardScryptN, params_ScryptP = StandardScryptP\<rparr>"

text \<open>The struct \<open>EncryptedData\<close>; \<open>Hex\<close> is a byte slice of any length.\<close>

record encrypted_data =
  Salt :: bytes
  ScryptN :: int
  ScryptP :: int
  Nonce :: bytes
  EncryptedData :: bytes

text \<open>
  The functions of \<open>golang.org/x/crypto\<close> that the key store calls are parameters of the
  model:
  \<^item> \<open>scrypt.Key(password, salt, N, r, p, keyLen)\<close>, which fails on invalid cost parameters;
  \<^item> \<open>secretbox.Seal(out, message, nonce, key)\<close>, which appends the sealed box to \<open>out\<close>;
  \<^item> \<open>secretbox.Open(out, box, nonce, key)\<close>, which returns \<open>ok = false\<close> (here \<open>None\<close>)
    when the box does not authenticate.
\<close>

record crypto =
  scrypt_Key :: "bytes \<Rightarrow> bytes \<Rightarrow> int \<Rightarrow> int \<Rightarrow> int \<Rightarrow> int \<Rightarrow> error + bytes"
  secretbox_Seal :: "bytes \<Rightarrow> bytes \<Rightarrow> bytes \<Rightarrow> bytes \<Rightarrow> bytes"
  secretbox_Open :: "bytes \<Rightarrow> bytes \<Rightarrow> bytes \<Rightarrow> bytes \<Rightarrow> bytes option"

text \<open>
  \<open>io.ReadFull(rand.Reader, buf)\<close>: \<open>rnd\<close> is what the random source can still deliver;
  the call fills all of \<open>buf\<close> or fails.
\<close>

definition ReadFull :: "bytes \<Rightarrow> nat \<Rightarrow> (bytes \<times> bytes) option" where
  "ReadFull rnd n = (if length rnd < n then None else Some (take n rnd, drop n rnd))"

definition EncryptData ::
  "crypto \<Rightarrow> bytes \<Rightarrow> bytes \<Rightarrow> bytes \<Rightarrow> int \<Rightarrow> int \<Rightarrow> error + encrypted_data" where
  "EncryptData C rnd data pass scryptN scryptP =
     (case ReadFull rnd 32 of
        None \<Rightarrow> Inl RandPanic
      | Some (salt, rnd1) \<Rightarrow>
          (case scrypt_Key C pass salt scryptN scryptR scryptP scryptDKLen of
             Inl err \<Rightarrow> Inl err
           | Inr derivedKey \<Rightarrow>
               (let key = go_copy (zero_array 32) derivedKey
                in case ReadFull rnd1 24 of
                     None \<Rightarrow> Inl RandPanic
                   | Some (nonce, rnd2) \<Rightarrow>
                       (let encryptedData = secretbox_Seal C [] data nonce key
                        in Inr \<lparr>Salt = salt, ScryptN = scryptN, ScryptP = scryptP,
                                Nonce = nonce, EncryptedData = encryptedData\<rparr>))))"

definition DecryptData :: "crypto \<Rightarrow> encrypted_data \<Rightarrow> bytes \<Rightarrow> error + bytes" where
  "DecryptData C encData pass =
     (case scrypt_Key C pass (Salt encData) (ScryptN encData) scryptR (ScryptP encData)
             scryptDKLen of
        Inl err \<Rightarrow> Inl err
      | Inr derivedKey \<Rightarrow>
          (let key = go_copy (zero_array 32) derivedKey;
               nonce = go_copy (zero_array 24) (Nonce encData)
           in case secretbox_Open C [] (EncryptedData encData) nonce key of
                None \<Rightarrow> Inl InvalidEncryptedData
              | Some data \<Rightarrow> Inr data))"

section \<open>Storage\<close>

text \<open>
  The interface \<open>Storage\<close>, over the state \<open>'s\<close> of the container behind it. \<open>Read\<close>
  returns Go's pair of bytes and error.
\<close>

record 's Storage =
  Read :: "'s \<Rightarrow> (bytes \<times> error option) \<times> 's"
  Write :: "bytes \<Rightarrow> 's \<Rightarrow> error option \<times> 's"
  Lock :: "'s \<Rightarrow> error option \<times> 's"
  Unlock :: "'s \<Rightarrow> error option \<times> 's"

subsection \<open>\<open>MemStorage\<close>: a byte slice\<close>

definition MemStorage_Read :: "bytes \<Rightarrow> (bytes \<times> error option) \<times> bytes" where
  "MemStorage_Read ms = ((ms, None), ms)"

definition MemStorage_Write :: "bytes \<Rightarrow> bytes \<Rightarrow> error option \<times> bytes" where
  "MemStorage_Write data ms = (None, data)"

definition MemStorage_Lock :: "bytes \<Rightarrow> error option \<times> bytes" where
  "MemStorage_Lock ms = (None, ms)"

definition MemStorage_Unlock :: "bytes \<Rightarrow> error option \<times> bytes" where
  "MemStorage_Unlock ms = (None, ms)"

definition MemStorage :: "bytes Storage" where
  "MemStorage = \<lparr>Read = MemStorage_Read, Write = MemStorage_Write,
                  Lock = MemStorage_Lock, Unlock = MemStorage_Unlock\<rparr>"

subsection \<open>\<open>FileStorage\<close>: a file and its lock file\<close>

text \<open>
  The file system as \<open>FileStorage\<close> sees it: the files by path, whether the \<open>flock\<close> of
  the storage is held, and what goes wrong at the next call (nothing, when \<open>None\<close>):
  a write can fail on opening the file, or after some bytes have been written.
\<close>

datatype wfault = OpenFails | WriteFailsAfter nat

record fsworld =
  files :: "string \<Rightarrow> bytes option"
  locked :: bool
  lock_fault :: "error option"
  write_fault :: "wfault option"

text \<open>\<open>ioutil.ReadFile\<close>: the content of the file, or \<open>nil\<close> and the error of \<open>os.Open\<close>.\<close>

definition ioutil_ReadFile :: "string \<Rightarrow> fsworld \<Rightarrow> bytes \<times> error option" where
  "ioutil_ReadFile path w =
     (case files w path of None \<Rightarrow> ([], Some NotExist) | Some content \<Rightarrow> (content, None))"

text \<open>
  \<open>ioutil.WriteFile\<close> opens the file itself with \<open>O_WRONLY|O_CREATE|O_TRUNC\<close>, which
  empties it, and then writes the data into it.
\<close>

definition ioutil_WriteFile :: "string \<Rightarrow> bytes \<Rightarrow> fsworld \<Rightarrow> error option \<times> fsworld" where
  "ioutil_WriteFile path data w =
     (case write_fault w of
        None \<Rightarrow> (None, w\<lparr>files := (files w)(path \<mapsto> data)\<rparr>)
      | Some OpenFails \<Rightarrow> (Some IOError, w)
      | Some (WriteFailsAfter k) \<Rightarrow>
          (Some IOError, w\<lparr>files := (files w)(path \<mapsto> take k data)\<rparr>))"

text \<open>
  \<open>flock.Lock\<close> creates the lock file when it is missing and takes the lock;
  \<open>flock.Unlock\<close> gives the lock back; \<open>os.Remove\<close> deletes a file that exists.
  A call of \<open>flock.Lock\<close> that waits for another process is a call that has not returned
  yet: the model describes the calls that return.
\<close>

definition flock_Lock :: "string \<Rightarrow> fsworld \<Rightarrow> error option \<times> fsworld" where
  "flock_Lock lockpath w =
     (case lock_fault w of
        Some err \<Rightarrow> (Some err, w)
      | None \<Rightarrow>
          (None, w\<lparr>files := (case files w lockpath of
                                None \<Rightarrow> (files w)(lockpath \<mapsto> [])
                              | Some _ \<Rightarrow> files w),
                    locked := True\<rparr>))"

definition flock_Unlock :: "fsworld \<Rightarrow> error option \<times> fsworld" where
  "flock_Unlock w = (None, w\<lparr>locked := False\<rparr>)"

definition os_Remove :: "string \<Rightarrow> fsworld \<Rightarrow> error option \<times> fsworld" where
  "os_Remove path w =
     (case files w path of
        None \<Rightarrow> (Some NotExist, w)
      | Some _ \<Rightarrow> (None, w\<lparr>files := (files w)(path := None)\<rparr>))"

definition FileStorage_Read :: "string \<Rightarrow> fsworld \<Rightarrow> (bytes \<times> error option) \<times> fsworld" where
  "FileStorage_Read path w = (ioutil_ReadFile path w, w)"

definition FileStorage_Write :: "string \<Rightarrow> bytes \<Rightarrow> fsworld \<Rightarrow> error option \<times> fsworld" where
  "FileStorage_Write path data w = ioutil_WriteFile path data w"

definition FileStorage_Lock :: "string \<Rightarrow> fsworld \<Rightarrow> error option \<times> fsworld" where
  "FileStorage_Lock path w = flock_Lock (path @ ''.lock'') w"

definition FileStorage_Unlock :: "string \<Rightarrow> fsworld \<Rightarrow> error option \<times> fsworld" where
  "FileStorage_Unlock path w =
     (case flock_Unlock w of
        (Some err, w1) \<Rightarrow> (Some err, w1)
      | (None, w1) \<Rightarrow> os_Remove (path @ ''.lock'') w1)"

text \<open>\<open>NewFileStorage(path)\<close>, as a \<open>Storage\<close>.\<close>

definition NewFileStorage :: "string \<Rightarrow> fsworld Storage" where
  "NewFileStorage path =
     \<lparr>Read = FileStorage_Read path, Write = FileStorage_Write path,
      Lock = FileStorage_Lock path, Unlock = FileStorage_Unlock path\<rparr>"

section \<open>The key store\<close>

text \<open>
  \<open>KeysStored\<close> is a Go map from \<open>hex32\<close> to \<open>EncryptedData\<close>: an association list with
  one entry per key. The cache maps a public key to a pointer to a \<open>babyjub.PrivKey\<close>
  (a \<open>[32]byte\<close>): a pointer is an index into the heap of private keys, a list of cells.
  The storage of the key store is passed next to it, as the interface and its state.
\<close>

type_synonym KeysStored = "(bytes \<times> encrypted_data) list"
type_synonym heap = "bytes list"

record KeyStore =
  params :: KeyStoreParams
  encryptedKeys :: KeysStored
  cache :: "(bytes \<times> nat) list"

text \<open>\<open>json.Marshal\<close> and \<open>json.Unmarshal\<close> on \<open>KeysStored\<close> are parameters.\<close>

record json_codec =
  Marshal :: "KeysStored \<Rightarrow> error + bytes"
  Unmarshal :: "bytes \<Rightarrow> error + KeysStored"

definition os_IsNotExist :: "error option \<Rightarrow> bool" where
  "os_IsNotExist err = (err = Some NotExist)"

text \<open>
  \<open>NewKeyStore\<close>, from the point where \<open>encryptedKeysJSON\<close> is known: \<open>s\<close> is the state
  of the storage after \<open>Lock\<close> and \<open>Read\<close>.
\<close>

definition NewKeyStore_parse ::
  "json_codec \<Rightarrow> 's Storage \<Rightarrow> KeyStoreParams \<Rightarrow> bytes \<Rightarrow> 's \<Rightarrow> (error + KeyStore) \<times> 's" where
  "NewKeyStore_parse J storage ps encryptedKeysJSON s =
     (if length encryptedKeysJSON = 0
      then (Inr \<lparr>params = ps, encryptedKeys = [], cache = []\<rparr>, s)
      else (case Unmarshal J encryptedKeysJSON of
              Inl err \<Rightarrow> (case Unlock storage s of (_, s') \<Rightarrow> (Inl err, s'))
            | Inr keys \<Rightarrow> (Inr \<lparr>params = ps, encryptedKeys = keys, cache = []\<rparr>, s)))"

definition NewKeyStore ::
  "json_codec \<Rightarrow> 's Storage \<Rightarrow> KeyStoreParams \<Rightarrow> 's \<Rightarrow> (error + KeyStore) \<times> 's" where
  "NewKeyStore J storage ps s =
     (case Lock storage s of
        (Some err, s1) \<Rightarrow> (Inl err, s1)
      | (None, s1) \<Rightarrow>
          (case Read storage s1 of
             ((encryptedKeysJSON, err), s2) \<Rightarrow>
               if os_IsNotExist err then NewKeyStore_parse J storage ps [] s2
               else (case err of
                       Some e \<Rightarrow> (case Unlock storage s2 of (_, s3) \<Rightarrow> (Inl e, s3))
                     | None \<Rightarrow> NewKeyStore_parse J storage ps encryptedKeysJSON s2)))"

text \<open>
  The finalizer that \<open>NewKeyStore\<close> sets on the key store: it copies 32 zero bytes over
  every private key that the cache points to (\<open>clear_key\<close> is the body of its loop:
  \<open>copy(sk[:], zero[:])\<close>), and unlocks the storage, dropping the error of \<open>Unlock\<close>.
  A pointer of the cache always points into the heap.
\<close>

definition clear_key :: "bytes \<times> nat \<Rightarrow> heap \<Rightarrow> heap" where
  "clear_key = (\<lambda>(pk, sk) hp. hp[sk := go_copy (hp ! sk) (zero_array 32)])"

definition finalizer :: "'s Storage \<Rightarrow> KeyStore \<Rightarrow> heap \<Rightarrow> 's \<Rightarrow> heap \<times> 's" where
  "finalizer storage ks h s =
     (let h' = fold clear_key (cache ks) h
      in case Unlock storage s of (_, s') \<Rightarrow> (h', s'))"


text \<open>
  The functions of the repository's packages \<open>babyjub\<close> and \<open>mimc7\<close> that the key store
  calls are parameters: points are \<open>'pt\<close>, signatures \<open>'sg\<close>, field elements integers.
\<close>

record ('pt, 'sg) babyjub =
  Pub :: "bytes \<Rightarrow> 'pt"
  Compress :: "'pt \<Rightarrow> bytes"
  Point_Decompress :: "bytes \<Rightarrow> error + 'pt"
  SignMimc7 :: "bytes \<Rightarrow> int \<Rightarrow> 'sg"
  Signature_Compress :: "'sg \<Rightarrow> bytes"
  Signature_Decompress :: "bytes \<Rightarrow> error + 'sg"
  VerifyMimc7 :: "'pt \<Rightarrow> int \<Rightarrow> 'sg \<Rightarrow> bool"
  mimc7_Hash :: "int list \<Rightarrow> int"


text \<open>
  \<open>UnlockKey\<close>: \<open>var sk babyjub.PrivKey; copy(sk[:], skBuf); ks.cache[hexPk] = &sk\<close>
  puts a new cell on the heap and its address into the cache.
\<close>

definition UnlockKey ::
  "crypto \<Rightarrow> bytes \<Rightarrow> bytes \<Rightarrow> KeyStore \<Rightarrow> heap \<Rightarrow> error option \<times> KeyStore \<times> heap" where
  "UnlockKey C pk pass ks h =
     (case map_of (encryptedKeys ks) pk of
        None \<Rightarrow> (Some KeyNotFound, ks, h)
      | Some encryptedKey \<Rightarrow>
          (case DecryptData C encryptedKey pass of
             Inl err \<Rightarrow> (Some err, ks, h)
           | Inr skBuf \<Rightarrow>
               (let sk = go_copy (zero_array 32) skBuf
                in (None, ks\<lparr>cache := AList.update pk (length h) (cache ks)\<rparr>, h @ [sk]))))"

text \<open>\<open>ExportKey\<close> returns the pointer found in the cache (\<open>None\<close> is \<open>nil\<close>).\<close>

definition ExportKey ::
  "crypto \<Rightarrow> bytes \<Rightarrow> bytes \<Rightarrow> KeyStore \<Rightarrow> heap \<Rightarrow> (error + nat option) \<times> KeyStore \<times> heap" where
  "ExportKey C pk pass ks h =
     (case UnlockKey C pk pass ks h of
        (Some err, ks', h') \<Rightarrow> (Inl err, ks', h')
      | (None, ks', h') \<Rightarrow> (Inr (map_of (cache ks') pk), ks', h'))"

definition SignElem ::
  "('pt, 'sg) babyjub \<Rightarrow> bytes \<Rightarrow> int \<Rightarrow> KeyStore \<Rightarrow> heap \<Rightarrow> error + bytes" where
  "SignElem B pk msg ks h =
     (case map_of (cache ks) pk of
        None \<Rightarrow> Inl NotInCache
      | Some sk \<Rightarrow> Inr (Signature_Compress B (SignMimc7 B (h ! sk) msg)))"

definition Sign ::
  "('pt, 'sg) babyjub \<Rightarrow> bytes \<Rightarrow> bytes \<Rightarrow> KeyStore \<Rightarrow> heap \<Rightarrow> error + bytes" where
  "Sign B pk msg ks h = SignElem B pk (mimc7HashBytes (mimc7_Hash B) msg) ks h"

text \<open>
  \<open>VerifySignatureElem\<close> and \<open>VerifySignature\<close> return Go's pair: the boolean and the
  error.
\<close>

definition VerifySignatureElem ::
  "('pt, 'sg) babyjub \<Rightarrow> bytes \<Rightarrow> int \<Rightarrow> bytes \<Rightarrow> bool \<times> error option" where
  "VerifySignatureElem B pkComp msg sigComp =
     (case Point_Decompress B pkComp of
        Inl err \<Rightarrow> (False, Some err)
      | Inr pkPoint \<Rightarrow>
          (case Signature_Decompress B sigComp of
             Inl err \<Rightarrow> (False, Some err)
           | Inr sig \<Rightarrow> (VerifyMimc7 B pkPoint msg sig, None)))"

definition VerifySignature ::
  "('pt, 'sg) babyjub \<Rightarrow> bytes \<Rightarrow> bytes \<Rightarrow> bytes \<Rightarrow> bool \<times> error option" where
  "VerifySignature B pkComp msg sigComp =
     VerifySignatureElem B pkComp (mimc7HashBytes (mimc7_Hash B) msg) sigComp"

section \<open>Stand-ins for the libraries, and concrete states\<close>

text \<open>
  The theorems below hold for every choice of the library functions. To run the model on
  concrete inputs, the libraries are instantiated with small stand-ins: a key derivation
  that rejects \<open>N \<le> 1\<close>, a box that carries a 16-byte tag in front of the masked
  message, a curve whose points and signatures are byte strings, and a JSON codec that
  only reads the empty object \<open>{}\<close>.
\<close>

definition toy_mix :: "bytes \<Rightarrow> byte" where
  "toy_mix bs = fold (+) bs 0"

definition toy_scrypt_Key ::
  "bytes \<Rightarrow> bytes \<Rightarrow> int \<Rightarrow> int \<Rightarrow> int \<Rightarrow> int \<Rightarrow> error + bytes" where
  "toy_scrypt_Key password salt N r p keyLen =
     (if N \<le> 1 then Inl ScryptError
      else Inr (replicate (nat keyLen) (toy_mix (password @ salt) + of_int (N + r + p))))"

definition toy_Seal :: "bytes \<Rightarrow> bytes \<Rightarrow> bytes \<Rightarrow> bytes \<Rightarrow> bytes" where
  "toy_Seal out message nonce key =
     (let k = toy_mix (nonce @ key); body = map (\<lambda>b. b XOR k) message
      in out @ replicate 16 (toy_mix body + k) @ body)"

definition toy_Open :: "bytes \<Rightarrow> bytes \<Rightarrow> bytes \<Rightarrow> bytes \<Rightarrow> bytes option" where
  "toy_Open out box nonce key =
     (let k = toy_mix (nonce @ key); body = drop 16 box
      in if 16 \<le> length box \<and> take 16 box = replicate 16 (toy_mix body + k)
         then Some (out @ map (\<lambda>b. b XOR k) body) else None)"

definition toy_crypto :: crypto where
  "toy_crypto = \<lparr>scrypt_Key = toy_scrypt_Key, secretbox_Seal = toy_Seal,
                  secretbox_Open = toy_Open\<rparr>"

definition toy_Decompress :: "bytes \<Rightarrow> error + bytes" where
  "toy_Decompress b = (if b = [] \<or> last b = 255 then Inl DecompressError else Inr b)"

definition toy_babyjub :: "(bytes, bytes) babyjub" where
  "toy_babyjub =
     \<lparr>Pub = map (\<lambda>b. b + 1), Compress = (\<lambda>p. p), Point_Decompress = toy_Decompress,
      SignMimc7 = (\<lambda>sk msg. map (\<lambda>b. b + 1) sk @ replicate 32 (of_int msg)),
      Signature_Compress = (\<lambda>s. s), Signature_Decompress = toy_Decompress,
      VerifyMimc7 = (\<lambda>p msg s. s = p @ replicate 32 (of_int msg)),
      mimc7_Hash = sum_list\<rparr>"

definition toy_json :: json_codec where
  "toy_json =
     \<lparr>Marshal = (\<lambda>keys. Inr ([123] @ concat (map fst keys) @ [125])),
      Unmarshal = (\<lambda>blob. if blob = [123, 125] then Inr [] else Inl JSONError)\<rparr>"

text \<open>
  56 bytes from the random source, a secret key, the passphrase \<open>abc\<close>, an empty key store
  with the light parameters, and a file system without files.
\<close>

definition rnd0 :: bytes where "rnd0 = map of_nat [0..<56]"
definition sk0 :: bytes where "sk0 = replicate 32 7"
definition pk0 :: bytes where "pk0 = replicate 32 8"
definition pass0 :: bytes where "pass0 = [97, 98, 99]"

definition ks0 :: KeyStore where
  "ks0 = \<lparr>params = LightKeyStoreParams, encryptedKeys = [], cache = []\<rparr>"

definition world0 :: fsworld where
  "world0 = \<lparr>files = Map.empty, locked = False, lock_fault = None, write_fault = None\<rparr>"

text \<open>
  The record that \<open>EncryptData\<close> makes of a plaintext under \<open>pass0\<close>, \<open>rnd0\<close> and the
  light parameters, with the stand-ins: the salt is the first 32 bytes of \<open>rnd0\<close>, the
  nonce the next 24.
\<close>

definition rec0 :: "bytes \<Rightarrow> encrypted_data" where
  "rec0 data =
     \<lparr>Salt = map of_nat [0..<32], ScryptN = 4096, ScryptP = 6,
      Nonce = map of_nat [32..<56],
      EncryptedData = toy_Seal [] data (map of_nat [32..<56]) (replicate 32 36)\<rparr>"

text \<open>
  File systems: one with a data file that is no JSON, one of an open store (the lock file
  is there and the lock is held), and one with a data file of three bytes.
\<close>

definition world_bad :: fsworld where
  "world_bad = world0\<lparr>files := [''keys'' \<mapsto> [1, 2, 3]]\<rparr>"

definition world_open :: fsworld where
  "world_open = world0\<lparr>files := [''keys.lock'' \<mapsto> []], locked := True\<rparr>"

definition world_old :: fsworld where
  "world_old = world0\<lparr>files := [''keys'' \<mapsto> [1, 2, 3]], locked := True\<rparr>"

definition ks1 :: "bytes \<Rightarrow> KeyStore" where
  "ks1 data = ks0\<lparr>encryptedKeys := [(pk0, rec0 data)]\<rparr>"

section \<open>Helper facts\<close>

lemma go_copy_same_length: "length src = length dst \<Longrightarrow> go_copy dst src = src"
  by (simp add: go_copy_def)

lemma length_go_copy: "length (go_copy dst src) = length dst"
  by (simp add: go_copy_def)

lemma go_copy_zero_array:
  "go_copy (zero_array n) src = take n src @ replicate (n - length src) 0"
  by (simp add: go_copy_def zero_array_def)

lemma go_copy_append: "length a = length dst \<Longrightarrow> go_copy dst (a @ x) = a"
  by (simp add: go_copy_def)

lemma go_copy_zero_32: "length cell = 32 \<Longrightarrow> go_copy cell (zero_array 32) = replicate 32 0"
  by (simp add: go_copy_def zero_array_def)

lemma set_update_subset: "set (AList.update k v al) \<subseteq> insert (k, v) (set al)"
  by (induction al) auto


subsection \<open>The stand-ins at work\<close>

lemma toy_Open_Seal: "toy_Open [] (toy_Seal [] m n k) n k = Some m"
  by (simp add: toy_Open_def toy_Seal_def Let_def comp_def xor.assoc)

lemma toy_secretbox:
  "\<forall>m n k. length n = 24 \<and> length k = 32 \<longrightarrow>
     secretbox_Open toy_crypto [] (secretbox_Seal toy_crypto [] m n k) n k = Some m"
  by (simp add: toy_crypto_def toy_Open_Seal)

lemma byte_4900: "(4900 :: byte) = 36"
  by code_simp

lemma EncryptData_toy:
  "EncryptData toy_crypto rnd0 data pass0 LightScryptN LightScryptP = Inr (rec0 data)"
  by (simp add: EncryptData_def ReadFull_def rnd0_def pass0_def LightScryptN_def
      LightScryptP_def toy_crypto_def toy_scrypt_Key_def scryptR_def scryptDKLen_def rec0_def
      go_copy_zero_array toy_mix_def upt_rec take_map drop_map byte_4900)

lemma DecryptData_toy: "DecryptData toy_crypto (rec0 data) pass0 = Inr data"
  by (simp add: DecryptData_def rec0_def pass0_def toy_crypto_def toy_scrypt_Key_def
      scryptR_def scryptDKLen_def go_copy_zero_array toy_mix_def upt_rec byte_4900
      toy_Open_Seal)





lemma Write_run_short:
  "FileStorage_Write ''keys'' [4, 5, 6] (world_old\<lparr>write_fault := Some (WriteFailsAfter 1)\<rparr>)
   = (Some IOError,
      world_old\<lparr>files := [''keys'' \<mapsto> [4]], write_fault := Some (WriteFailsAfter 1)\<rparr>)"
  by (simp add: FileStorage_Write_def ioutil_WriteFile_def world_old_def world0_def)

lemma Write_run_ok:
  "FileStorage_Write ''keys'' [4, 5, 6] world_old
   = (None, world_old\<lparr>files := [''keys'' \<mapsto> [4, 5, 6]]\<rparr>)"
  by (simp add: FileStorage_Write_def ioutil_WriteFile_def world_old_def world0_def)

lemma NewKeyStore_runs:
  "Lock (NewFileStorage ''keys'') world0 = (None, world_open)"
  "Read (NewFileStorage ''keys'') world_open = (([], Some NotExist), world_open)"
  "Lock (NewFileStorage ''keys'') (world0\<lparr>lock_fault := Some LockError\<rparr>)
     = (Some LockError, world0\<lparr>lock_fault := Some LockError\<rparr>)"
  "Lock MemStorage [] = (None, [])"
  "Read MemStorage [] = (([], None), [])"
  "Lock (NewFileStorage ''keys'') world_bad
     = (None, world_bad\<lparr>files := (files world_bad)(''keys.lock'' \<mapsto> []), locked := True\<rparr>)"
  "Read (NewFileStorage ''keys'')
       (world_bad\<lparr>files := (files world_bad)(''keys.lock'' \<mapsto> []), locked := True\<rparr>)
     = (([1, 2, 3], None),
        world_bad\<lparr>files := (files world_bad)(''keys.lock'' \<mapsto> []), locked := True\<rparr>)"
  "Unmarshal toy_json [1, 2, 3] = Inl JSONError"
  "Unlock (NewFileStorage ''keys'')
       (world_bad\<lparr>files := (files world_bad)(''keys.lock'' \<mapsto> []), locked := True\<rparr>)
     = (None, world_bad)"
  by (simp_all add: NewFileStorage_def FileStorage_Lock_def flock_Lock_def world0_def
      world_bad_def world_open_def FileStorage_Read_def ioutil_ReadFile_def
      FileStorage_Unlock_def flock_Unlock_def os_Remove_def MemStorage_def MemStorage_Lock_def
      MemStorage_Read_def MemStorage_Unlock_def toy_json_def)

lemma toy_Decompress_runs:
  "Point_Decompress toy_babyjub pk0 = Inr pk0"
  "Signature_Decompress toy_babyjub (replicate 64 1) = Inr (replicate 64 1)"
  "Point_Decompress toy_babyjub (replicate 32 255) = Inl DecompressError"
  "Signature_Decompress toy_babyjub (replicate 64 255) = Inl DecompressError"
  by (simp_all add: toy_babyjub_def toy_Decompress_def pk0_def)

lemma toy_Verify_runs:
  "\<not> VerifyMimc7 toy_babyjub pk0 5 (replicate 64 1)"
  "\<not> VerifyMimc7 toy_babyjub pk0 (mimc7HashBytes (mimc7_Hash toy_babyjub) [1, 2, 3])
       (replicate 64 1)"
  by (simp_all add: toy_babyjub_def pk0_def replicate_add [of 32 32, simplified])

subsection \<open>The loop of the finalizer\<close>

lemma length_fold_clear_key: "length (fold clear_key c h) = length h"
  by (induction c arbitrary: h) (auto simp: clear_key_def)

lemma fold_clear_key_other:
  "a \<notin> snd ` set c \<Longrightarrow> fold clear_key c h ! a = h ! a"
  by (induction c arbitrary: h) (auto simp: clear_key_def)

lemma fold_clear_key_cached:
  "a \<in> snd ` set c \<Longrightarrow> a < length h \<Longrightarrow> length (h ! a) = 32 \<Longrightarrow>
   fold clear_key c h ! a = replicate 32 0"
proof (induction c arbitrary: h)
  case Nil
  then show ?case by simp
next
  case (Cons e c)
  obtain pk b where e: "e = (pk, b)" by (cases e)
  let ?h1 = "h[b := go_copy (h ! b) (zero_array 32)]"
  have step: "fold clear_key (e # c) h = fold clear_key c ?h1"
    by (simp add: e clear_key_def)
  have len1: "a < length ?h1" using Cons.prems by simp
  have cell1: "length (?h1 ! a) = 32"
    using Cons.prems by (cases "a = b") (simp_all add: length_go_copy)
  show ?case
  proof (cases "a \<in> snd ` set c")
    case True
    from Cons.IH [OF True len1 cell1] step show ?thesis by simp
  next
    case False
    with Cons.prems e have ab: "a = b" by auto
    have "fold clear_key c ?h1 ! a = ?h1 ! a" by (rule fold_clear_key_other [OF False])
    also have "\<dots> = replicate 32 0"
      using Cons.prems ab by (simp add: go_copy_zero_32)
    finally show ?thesis using step by simp
  qed
qed

text \<open>
  The pointers of the cache stay valid: a new key store has an empty cache, and
  \<open>UnlockKey\<close> only adds the address of the 32-byte cell that it allocates.
\<close>

lemma UnlockKey_keeps_pointers:
  assumes ptrs: "\<forall>(k, sk) \<in> set (cache ks). sk < length h \<and> length (h ! sk) = 32"
    and run: "UnlockKey C pk pass ks h = (r, ks', h')"
  shows "\<forall>(k, sk) \<in> set (cache ks'). sk < length h' \<and> length (h' ! sk) = 32"
proof (cases "\<exists>encryptedKey skBuf. map_of (encryptedKeys ks) pk = Some encryptedKey
                \<and> DecryptData C encryptedKey pass = Inr skBuf")
  case True
  then obtain encryptedKey skBuf where
    "map_of (encryptedKeys ks) pk = Some encryptedKey"
    "DecryptData C encryptedKey pass = Inr skBuf" by blast
  with run have ks': "cache ks' = AList.update pk (length h) (cache ks)"
    and h': "h' = h @ [go_copy (zero_array 32) skBuf]"
    by (auto simp: UnlockKey_def)
  have cell: "length (go_copy (zero_array 32) skBuf) = 32"
    by (simp add: length_go_copy zero_array_def)
  show ?thesis
  proof (clarify)
    fix k sk assume "(k, sk) \<in> set (cache ks')"
    with ks' set_update_subset [of pk "length h" "cache ks"]
    have "(k, sk) = (pk, length h) \<or> (k, sk) \<in> set (cache ks)" by auto
    then show "sk < length h' \<and> length (h' ! sk) = 32"
      using ptrs cell by (auto simp: h' nth_append)
  qed
next
  case False
  with run have "ks' = ks" "h' = h"
    by (auto simp: UnlockKey_def split: option.splits sum.splits)
  with ptrs show ?thesis by simp
qed

section \<open>C1: the field hash of a message\<close>

text \<open>
  The loop collects the full 31-byte blocks in order. For a message shorter than 31 bytes,
  and for a message whose length is a multiple of 31, the elements that the code hashes
  are those of the specification's chunking.
\<close>

lemma msgElems_loop_map:
  "i \<le> length msg div 31 \<Longrightarrow>
   msgElems_loop msg i acc =
     acc @ map (\<lambda>j. SetBigIntFromLEBytes (slice msg (31 * j) (31 * (j + 1))))
             [i..<length msg div 31]"
proof (induction msg i acc rule: msgElems_loop.induct)
  case (1 msg i acc)
  show ?case
  proof (cases "i < length msg div 31")
    case True
    then have "[i..<length msg div 31] = i # [i + 1..<length msg div 31]"
      by (simp add: upt_conv_Cons)
    have "msgElems_loop msg i acc = msgElems_loop msg (i + 1)
             (acc @ [SetBigIntFromLEBytes (slice msg (31 * i) (31 * (i + 1)))])"
      using True by (subst msgElems_loop.simps) (simp only: if_True)
    also have "\<dots> = (acc @ [SetBigIntFromLEBytes (slice msg (31 * i) (31 * (i + 1)))]) @
        map (\<lambda>j. SetBigIntFromLEBytes (slice msg (31 * j) (31 * (j + 1))))
             [i + 1..<length msg div 31]"
      using True by (intro "1.IH") simp_all
    finally show ?thesis
      using \<open>[i..<length msg div 31] = i # [i + 1..<length msg div 31]\<close> by simp
  next
    case False
    then have "msgElems_loop msg i acc = acc"
      by (subst msgElems_loop.simps) (simp only: if_False)
    with False "1.prems" show ?thesis
      by simp
  qed
qed

lemma spec_chunks_short:
  "msg \<noteq> [] \<Longrightarrow> length msg \<le> 31 \<Longrightarrow> spec_chunks (length msg) msg = [msg]"
proof -
  assume ne: "msg \<noteq> []" and le: "length msg \<le> 31"
  then obtain k where k: "length msg = Suc k" by (cases msg) auto
  have "spec_chunks (Suc k) msg = take 31 msg # spec_chunks k (drop 31 msg)"
    using ne by simp
  moreover have "drop 31 msg = []" using le by simp
  moreover have "spec_chunks k [] = []" by (cases k) simp_all
  ultimately show ?thesis using le k by simp
qed

lemma msgElems_short:
  assumes "length msg < 31"
  shows "msgElems msg = spec_field_elems msg"
proof (cases "msg = []")
  case True
  then show ?thesis
    by (simp add: msgElems_def spec_field_elems_def)
next
  case False
  with assms have "spec_chunks (length msg) msg = [msg]"
    by (simp add: spec_chunks_short)
  with assms False show ?thesis
    by (simp add: msgElems_def spec_field_elems_def slice_def)
qed

lemma slice_block: "slice s (31 * j) (31 * (j + 1)) = take 31 (drop (31 * j) s)"
  by (simp add: slice_def)

lemma spec_chunks_blocks:
  "length msg = 31 * q \<Longrightarrow> q \<le> k \<Longrightarrow>
   spec_chunks k msg = map (\<lambda>j. take 31 (drop (31 * j) msg)) [0..<q]"
proof (induction k arbitrary: msg q)
  case 0
  then show ?case by simp
next
  case (Suc k)
  show ?case
  proof (cases q)
    case 0
    with Suc.prems show ?thesis by simp
  next
    case (Suc q')
    with Suc.prems have ne: "msg \<noteq> []" and len: "length (drop 31 msg) = 31 * q'" and le: "q' \<le> k"
      by auto
    have "spec_chunks k (drop 31 msg) = map (\<lambda>j. take 31 (drop (31 * j) (drop 31 msg))) [0..<q']"
      by (rule Suc.IH [OF len le])
    also have "\<dots> = map (\<lambda>j. take 31 (drop (31 * Suc j) msg)) [0..<q']"
      by (simp only: drop_drop mult_Suc_right add.commute)
    also have "\<dots> = map (\<lambda>j. take 31 (drop (31 * j) msg)) (map Suc [0..<q'])"
      by (simp only: map_map comp_def)
    finally have tl: "spec_chunks k (drop 31 msg) =
        map (\<lambda>j. take 31 (drop (31 * j) msg)) [Suc 0..<Suc q']"
      by (simp only: map_Suc_upt)
    have upt: "[0..<Suc q'] = 0 # [Suc 0..<Suc q']"
      by (rule upt_conv_Cons) simp
    have "spec_chunks (Suc k) msg = take 31 msg # spec_chunks k (drop 31 msg)"
      using ne by simp
    then show ?thesis
      unfolding tl Suc upt by simp
  qed
qed

lemma msgElems_blocks:
  assumes "length msg mod 31 = 0"
  shows "msgElems msg = spec_field_elems msg"
proof -
  from assms obtain q where q: "length msg = 31 * q" by auto
  then have "q \<le> length msg" by simp
  from spec_chunks_blocks [OF q this]
  have spec: "spec_field_elems msg = map (\<lambda>j. SetBigIntFromLEBytes (take 31 (drop (31 * j) msg))) [0..<q]"
    by (simp only: spec_field_elems_def map_map comp_def)
  have "msgElems msg = msgElems_loop msg 0 []"
    using assms by (simp only: msgElems_def Let_def) simp
  also have "\<dots> = map (\<lambda>j. SetBigIntFromLEBytes (take 31 (drop (31 * j) msg))) [0..<length msg div 31]"
    by (subst msgElems_loop_map) (simp_all only: slice_block append_Nil le0)
  also have "length msg div 31 = q"
    using q by simp
  finally show ?thesis
    using spec by simp
qed

text \<open>A message of 32 bytes: 31 zero bytes and the byte 1.\<close>

lemma msgElems_32: "msgElems (replicate 31 0 @ [1]) = [0, 2 ^ 240]"
  by code_simp

lemma spec_field_elems_32: "spec_field_elems (replicate 31 0 @ [1]) = [0, 1]"
  by code_simp

text \<open>
  C1. The claim: the message is split into consecutive 31-byte chunks, and for a length
  that is not a multiple of 31 the final chunk is exactly the last \<open>L mod 31\<close> bytes.
  The code takes the final chunk from index \<open>len(msg)/n\<close>, not \<open>n * (len(msg)/n)\<close>.
  On the 32-byte message of 31 zero bytes followed by the byte 1, the code hashes
  \<open>[0, 2 ^ 240]\<close> (its final chunk is \<open>msg[1:]\<close>, 31 bytes long), where the chunking of
  the claim gives \<open>[0, 1]\<close> (the final chunk is the last byte).
\<close>

theorem mimc7HashBytes_final_chunk_32:
  "mimc7HashBytes Hash (replicate 31 0 @ [1]) = Hash [0, 2 ^ 240]
   \<and> spec_field_elems (replicate 31 0 @ [1]) = [0, 1]"
  by (simp only: mimc7HashBytes_def msgElems_32 spec_field_elems_32 simp_thms)

section \<open>C2: a failed \<open>ImportKey\<close>\<close>




section \<open>C3: decrypting what was encrypted\<close>

text \<open>
  C3. For every data \<open>D\<close>, passphrase \<open>P\<close> and parameters \<open>N\<close>, \<open>Pp\<close>: the record that
  \<open>EncryptData\<close> returns stores \<open>N\<close> and \<open>Pp\<close>, and \<open>DecryptData\<close> with \<open>P\<close> returns
  exactly \<open>D\<close>; \<open>UnlockKey\<close> decrypts such a record whatever the parameters of the store
  are. The property of \<open>secretbox\<close> that this rests on is a hypothesis: \<open>Open\<close> returns the
  message of a box that \<open>Seal\<close> made with the same 24-byte nonce and 32-byte key.
\<close>

theorem EncryptData_DecryptData_roundtrip:
  assumes sb: "\<forall>m n k. length n = 24 \<and> length k = 32 \<longrightarrow>
             secretbox_Open C [] (secretbox_Seal C [] m n k) n k = Some m"
    and enc: "EncryptData C rnd D P N Pp = Inr encData"
  shows "ScryptN encData = N \<and> ScryptP encData = Pp
       \<and> DecryptData C encData P = Inr D
       \<and> (\<forall>ks q h. map_of (encryptedKeys ks) pk = Some encData \<longrightarrow>
            fst (UnlockKey C pk P (ks\<lparr>params := q\<rparr>) h) = None)"
proof -
  from enc have pars: "ScryptN encData = N \<and> ScryptP encData = Pp"
    by (auto simp: EncryptData_def Let_def split: option.splits sum.splits prod.splits)
  from enc sb have dec: "DecryptData C encData P = Inr D"
    by (auto simp: EncryptData_def DecryptData_def ReadFull_def Let_def zero_array_def
        go_copy_same_length length_go_copy
        split: option.splits sum.splits if_splits prod.splits)
  from dec have "fst (UnlockKey C pk P (ks\<lparr>params := q\<rparr>) h) = None"
    if "map_of (encryptedKeys ks) pk = Some encData" for ks q h
    using that by (simp add: UnlockKey_def)
  with pars dec show ?thesis by blast
qed

theorem EncryptData_DecryptData_roundtrip_witness:
  "EncryptData toy_crypto rnd0 sk0 pass0 LightScryptN LightScryptP = Inr (rec0 sk0)
   \<and> ScryptN (rec0 sk0) = LightScryptN \<and> ScryptP (rec0 sk0) = LightScryptP
   \<and> DecryptData toy_crypto (rec0 sk0) pass0 = Inr sk0
   \<and> fst (UnlockKey toy_crypto pk0 pass0 ((ks1 sk0)\<lparr>params := StandardKeyStoreParams\<rparr>) [])
       = None"
proof -
  note rt = EncryptData_DecryptData_roundtrip [OF toy_secretbox EncryptData_toy, of sk0 pk0]
  have "map_of (encryptedKeys (ks1 sk0)) pk0 = Some (rec0 sk0)"
    by (simp add: ks1_def)
  with rt EncryptData_toy [of sk0] show ?thesis by blast
qed

section \<open>C4: writing the file\<close>

text \<open>
  C4, as stated, fails. \<open>FileStorage.Write\<close> is \<open>ioutil.WriteFile\<close> on the data file itself:
  there is no temporary file and no rename. When the write of \<open>[4, 5, 6]\<close> over a file
  that holds \<open>[1, 2, 3]\<close> fails after one byte, the file holds \<open>[4]\<close>: neither the old
  content nor the new.
\<close>

theorem FileStorage_Write_short_write:
  "files (world_old\<lparr>write_fault := Some (WriteFailsAfter 1)\<rparr>) ''keys'' = Some [1, 2, 3]
   \<and> fst (FileStorage_Write ''keys'' [4, 5, 6]
             (world_old\<lparr>write_fault := Some (WriteFailsAfter 1)\<rparr>)) = Some IOError
   \<and> files (snd (FileStorage_Write ''keys'' [4, 5, 6]
             (world_old\<lparr>write_fault := Some (WriteFailsAfter 1)\<rparr>))) ''keys'' = Some [4]"
  by (simp add: FileStorage_Write_def ioutil_WriteFile_def world_old_def world0_def)

text \<open>
  C4, amended. \<open>FileStorage.Write\<close> writes the data file in place: no other path of the
  file system changes (no temporary file is made); when it succeeds the data file holds
  exactly the new data; when it fails the data file holds the old content or a prefix of
  the new data.
\<close>

theorem FileStorage_Write_in_place:
  assumes "FileStorage_Write path data w = (r, w')"
  shows "(\<forall>p. p \<noteq> path \<longrightarrow> files w' p = files w p)
       \<and> (r = None \<longrightarrow> files w' path = Some data)
       \<and> (r \<noteq> None \<longrightarrow>
            files w' path = files w path \<or> (\<exists>k. files w' path = Some (take k data)))"
  using assms
  by (auto simp: FileStorage_Write_def ioutil_WriteFile_def split: option.splits wfault.splits)

theorem FileStorage_Write_in_place_witness:
  "FileStorage_Write ''keys'' [4, 5, 6] world_old
     = (None, world_old\<lparr>files := [''keys'' \<mapsto> [4, 5, 6]]\<rparr>)
   \<and> files (world_old\<lparr>files := [''keys'' \<mapsto> [4, 5, 6]]\<rparr>) ''keys'' = Some [4, 5, 6]
   \<and> files (world_old\<lparr>files := [''keys'' \<mapsto> [4, 5, 6]]\<rparr>) ''keys.tmp'' = files world_old ''keys.tmp''
   \<and> FileStorage_Write ''keys'' [4, 5, 6] (world_old\<lparr>write_fault := Some (WriteFailsAfter 1)\<rparr>)
     = (Some IOError,
        world_old\<lparr>files := [''keys'' \<mapsto> [4]], write_fault := Some (WriteFailsAfter 1)\<rparr>)
   \<and> files (world_old\<lparr>files := [''keys'' \<mapsto> [4]], write_fault := Some (WriteFailsAfter 1)\<rparr>)
        ''keys'' = Some (take 1 [4, 5, 6])"
  using FileStorage_Write_in_place [OF Write_run_ok] FileStorage_Write_in_place [OF Write_run_short]
    Write_run_ok Write_run_short
  by (simp add: world_old_def world0_def)

section \<open>C5: decryption that fails\<close>

text \<open>
  Whatever the libraries are, as long as \<open>Open\<close> returns the message of a box that \<open>Seal\<close>
  made: a record of \<open>EncryptData\<close> whose nonce has been extended by any bytes decrypts to
  the data that was encrypted.
\<close>

lemma DecryptData_ignores_nonce_tail:
  assumes sb: "\<forall>m n k. length n = 24 \<and> length k = 32 \<longrightarrow>
             secretbox_Open C [] (secretbox_Seal C [] m n k) n k = Some m"
    and enc: "EncryptData C rnd D P N Pp = Inr encData"
  shows "DecryptData C (encData\<lparr>Nonce := Nonce encData @ x\<rparr>) P = Inr D"
  using enc sb
  by (auto simp: EncryptData_def DecryptData_def ReadFull_def Let_def zero_array_def
      go_copy_append go_copy_same_length length_go_copy
      split: option.splits sum.splits if_splits prod.splits)




section \<open>C6: reading a storage that is not there\<close>

text \<open>
  C6, as stated, fails. \<open>FileStorage.Read\<close> is \<open>ioutil.ReadFile\<close>: when the file does not
  exist it returns no bytes and an error, the one that \<open>os.IsNotExist\<close> recognises.
\<close>

theorem FileStorage_Read_absent_file:
  "Read (NewFileStorage ''keys'') world0 = (([], Some NotExist), world0)"
  by (simp add: NewFileStorage_def FileStorage_Read_def ioutil_ReadFile_def world0_def)

text \<open>
  C6, amended. \<open>FileStorage.Read\<close> on a file that does not exist returns empty bytes and
  the not-exist error; \<open>MemStorage.Read\<close> returns its bytes and no error; and
  \<open>NewKeyStore\<close> takes a not-exist error of \<open>Read\<close> for an empty blob: it does not fail,
  it returns a store without keys and keeps the lock.
\<close>

theorem Read_absent_NewKeyStore:
  "(files w path = None \<longrightarrow> Read (NewFileStorage path) w = (([], Some NotExist), w))
   \<and> Read MemStorage ms = ((ms, None), ms)
   \<and> (Lock storage s = (None, s1) \<and> Read storage s1 = ((blob, Some NotExist), s2) \<longrightarrow>
        NewKeyStore J storage ps s = (Inr \<lparr>params = ps, encryptedKeys = [], cache = []\<rparr>, s2))"
  by (simp add: NewFileStorage_def FileStorage_Read_def ioutil_ReadFile_def MemStorage_def
      MemStorage_Read_def NewKeyStore_def NewKeyStore_parse_def os_IsNotExist_def)

theorem Read_absent_NewKeyStore_witness:
  "files world0 ''keys'' = None
   \<and> Read (NewFileStorage ''keys'') world0 = (([], Some NotExist), world0)
   \<and> Lock (NewFileStorage ''keys'') world0 = (None, world_open)
   \<and> Read (NewFileStorage ''keys'') world_open = (([], Some NotExist), world_open)
   \<and> NewKeyStore toy_json (NewFileStorage ''keys'') LightKeyStoreParams world0
       = (Inr \<lparr>params = LightKeyStoreParams, encryptedKeys = [], cache = []\<rparr>, world_open)"
proof -
  have absent: "files world0 ''keys'' = None"
    by (simp add: world0_def)
  note inst = Read_absent_NewKeyStore [of world0 "''keys''" _ "NewFileStorage ''keys''" world0
      world_open "[]" world_open toy_json LightKeyStoreParams]
  from inst absent NewKeyStore_runs(1,2) show ?thesis by blast
qed

section \<open>C7: opening a key store\<close>

text \<open>
  C7. \<open>NewKeyStore\<close> calls \<open>storage.Lock\<close> first and, when that returns an error, fails with
  it, the storage being as \<open>Lock\<close> left it; when the blob read is empty it returns a store
  with an empty map of key records; when the blob is not empty and does not parse it
  fails with the error of the parser, after \<open>storage.Unlock\<close>; and every store that it
  returns has an empty cache, and \<open>Lock\<close> has succeeded for it.
\<close>

theorem NewKeyStore_open:
  "(Lock storage s = (Some err, s1) \<longrightarrow> NewKeyStore J storage ps s = (Inl err, s1))
   \<and> (Lock storage s = (None, s1) \<and> Read storage s1 = (([], None), s2) \<longrightarrow>
        NewKeyStore J storage ps s = (Inr \<lparr>params = ps, encryptedKeys = [], cache = []\<rparr>, s2))
   \<and> (Lock storage s = (None, s1) \<and> Read storage s1 = ((blob, None), s2) \<and> blob \<noteq> []
        \<and> Unmarshal J blob = Inl err \<longrightarrow>
        NewKeyStore J storage ps s = (Inl err, snd (Unlock storage s2)))
   \<and> (NewKeyStore J storage ps s = (Inr ks, s') \<longrightarrow>
        cache ks = [] \<and> (\<exists>s1. Lock storage s = (None, s1)))"
  by (auto simp: NewKeyStore_def NewKeyStore_parse_def os_IsNotExist_def
      split: prod.splits option.splits sum.splits if_splits)

theorem NewKeyStore_open_witness:
  "NewKeyStore toy_json (NewFileStorage ''keys'') LightKeyStoreParams
       (world0\<lparr>lock_fault := Some LockError\<rparr>)
     = (Inl LockError, world0\<lparr>lock_fault := Some LockError\<rparr>)
   \<and> NewKeyStore toy_json MemStorage LightKeyStoreParams []
     = (Inr \<lparr>params = LightKeyStoreParams, encryptedKeys = [], cache = []\<rparr>, [])
   \<and> NewKeyStore toy_json (NewFileStorage ''keys'') LightKeyStoreParams world_bad
     = (Inl JSONError, world_bad)
   \<and> locked world_bad = False \<and> files world_bad ''keys.lock'' = None
   \<and> cache \<lparr>params = LightKeyStoreParams, encryptedKeys = [], cache = []\<rparr> = []"
proof -
  let ?w1 = "world_bad\<lparr>files := (files world_bad)(''keys.lock'' \<mapsto> []), locked := True\<rparr>"
  note a = NewKeyStore_open [of "NewFileStorage ''keys''" "world0\<lparr>lock_fault := Some LockError\<rparr>"
      LockError "world0\<lparr>lock_fault := Some LockError\<rparr>" toy_json LightKeyStoreParams]
  note b = NewKeyStore_open [of MemStorage "[]" _ "[]" toy_json LightKeyStoreParams "[]"]
  note c = NewKeyStore_open [of "NewFileStorage ''keys''" world_bad JSONError ?w1 toy_json
      LightKeyStoreParams ?w1 "[1, 2, 3]"]
  have 1: "NewKeyStore toy_json (NewFileStorage ''keys'') LightKeyStoreParams
       (world0\<lparr>lock_fault := Some LockError\<rparr>)
     = (Inl LockError, world0\<lparr>lock_fault := Some LockError\<rparr>)"
    using a NewKeyStore_runs(3) by blast
  have 2: "NewKeyStore toy_json MemStorage LightKeyStoreParams []
     = (Inr \<lparr>params = LightKeyStoreParams, encryptedKeys = [], cache = []\<rparr>, [])"
    using b NewKeyStore_runs(4,5) by blast
  have 3: "NewKeyStore toy_json (NewFileStorage ''keys'') LightKeyStoreParams world_bad
     = (Inl JSONError, world_bad)"
    using c NewKeyStore_runs(6-9) by simp
  have 4: "cache \<lparr>params = LightKeyStoreParams, encryptedKeys = [], cache = []\<rparr> = []"
    using b 2 by blast
  have 5: "locked world_bad = False \<and> files world_bad ''keys.lock'' = None"
    by (simp add: world_bad_def world0_def)
  from 1 2 3 4 5 show ?thesis by blast
qed

section \<open>C8: the end of a key store\<close>

text \<open>
  C8. The disposal of an open key store is the finalizer that \<open>NewKeyStore\<close> sets. When
  it has run, the 32 bytes behind every pointer of the cache are zero, no other cell of
  the heap has changed, and the storage is in the state that \<open>storage.Unlock\<close> leaves.
  The hypothesis is the invariant of the cache (\<open>UnlockKey_keeps_pointers\<close>): its
  pointers point to 32-byte cells of the heap.
\<close>

theorem finalizer_zeroes_cache:
  assumes ptrs: "\<forall>(pk, sk) \<in> set (cache ks). sk < length h \<and> length (h ! sk) = 32"
    and fin: "finalizer storage ks h s = (h', s')"
  shows "(\<forall>(pk, sk) \<in> set (cache ks). h' ! sk = replicate 32 0)
       \<and> length h' = length h
       \<and> (\<forall>a. a \<notin> snd ` set (cache ks) \<longrightarrow> h' ! a = h ! a)
       \<and> s' = snd (Unlock storage s)"
proof -
  from fin have h': "h' = fold clear_key (cache ks) h" and u: "s' = snd (Unlock storage s)"
    by (auto simp: finalizer_def Let_def split: prod.splits)
  have "h' ! sk = replicate 32 0" if "(pk, sk) \<in> set (cache ks)" for pk sk
  proof -
    from that have "sk \<in> snd ` set (cache ks)" by force
    moreover from that ptrs have "sk < length h" "length (h ! sk) = 32" by auto
    ultimately show ?thesis unfolding h' by (rule fold_clear_key_cached)
  qed
  then show ?thesis
    using u by (auto simp: h' length_fold_clear_key fold_clear_key_other)
qed

lemma UnlockKey_run: "UnlockKey toy_crypto pk0 pass0 (ks1 sk0) [] =
    (None, (ks1 sk0)\<lparr>cache := [(pk0, 0)]\<rparr>, [sk0])"
  by (simp add: UnlockKey_def ks1_def ks0_def DecryptData_toy go_copy_zero_array sk0_def)

lemma finalizer_run:
  "finalizer (NewFileStorage ''keys'') ((ks1 sk0)\<lparr>cache := [(pk0, 0)]\<rparr>) [sk0] world_open
   = ([replicate 32 0], world0)"
  by (simp add: finalizer_def clear_key_def zero_array_def go_copy_def ks1_def ks0_def sk0_def
      NewFileStorage_def FileStorage_Unlock_def flock_Unlock_def os_Remove_def world_open_def
      world0_def)

theorem finalizer_zeroes_cache_witness:
  "UnlockKey toy_crypto pk0 pass0 (ks1 sk0) [] = (None, (ks1 sk0)\<lparr>cache := [(pk0, 0)]\<rparr>, [sk0])
   \<and> length ([sk0] ! 0) = 32
   \<and> finalizer (NewFileStorage ''keys'') ((ks1 sk0)\<lparr>cache := [(pk0, 0)]\<rparr>) [sk0] world_open
       = ([replicate 32 0], world0)
   \<and> [replicate 32 (0 :: byte)] ! 0 = replicate 32 0
   \<and> world0 = snd (Unlock (NewFileStorage ''keys'') world_open)
   \<and> locked world_open = True \<and> locked world0 = False"
proof -
  let ?ks = "(ks1 sk0)\<lparr>cache := [(pk0, 0)]\<rparr>"
  have ptrs: "\<forall>(pk, sk) \<in> set (cache ?ks). sk < length [sk0] \<and> length ([sk0] ! sk) = 32"
    by (simp add: sk0_def)
  note z = finalizer_zeroes_cache [OF ptrs finalizer_run]
  have 1: "length ([sk0] ! 0) = 32"
    by (simp add: sk0_def)
  have 2: "[replicate 32 (0 :: byte)] ! 0 = replicate 32 0"
    by simp
  from z have 3: "world0 = snd (Unlock (NewFileStorage ''keys'') world_open)"
    by blast
  have 4: "locked world_open = True \<and> locked world0 = False"
    by (simp add: world_open_def world0_def)
  from UnlockKey_run finalizer_run 1 2 3 4 show ?thesis by blast
qed

section \<open>C9: a signature that does not verify\<close>

text \<open>
  C9. When the compressed public key and the compressed signature decompress,
  \<open>VerifySignatureElem\<close> and \<open>VerifySignature\<close> return \<open>false\<close> and no error for a signature
  that does not verify; they return an error exactly when the decompression of the point
  or of the signature fails.
\<close>

theorem VerifySignature_false_without_error:
  "(Point_Decompress B pkComp = Inr pkPoint \<and> Signature_Decompress B sigComp = Inr sig
      \<and> \<not> VerifyMimc7 B pkPoint elem sig \<longrightarrow>
      VerifySignatureElem B pkComp elem sigComp = (False, None))
   \<and> (Point_Decompress B pkComp = Inr pkPoint \<and> Signature_Decompress B sigComp = Inr sig
      \<and> \<not> VerifyMimc7 B pkPoint (mimc7HashBytes (mimc7_Hash B) msg) sig \<longrightarrow>
      VerifySignature B pkComp msg sigComp = (False, None))
   \<and> (snd (VerifySignatureElem B pkComp elem sigComp) \<noteq> None \<longleftrightarrow>
        (\<exists>e. Point_Decompress B pkComp = Inl e) \<or> (\<exists>e. Signature_Decompress B sigComp = Inl e))
   \<and> (snd (VerifySignature B pkComp msg sigComp) \<noteq> None \<longleftrightarrow>
        (\<exists>e. Point_Decompress B pkComp = Inl e) \<or> (\<exists>e. Signature_Decompress B sigComp = Inl e))"
  by (auto simp: VerifySignatureElem_def VerifySignature_def split: sum.splits)

theorem VerifySignature_false_without_error_witness:
  "VerifySignatureElem toy_babyjub pk0 5 (replicate 64 1) = (False, None)
   \<and> VerifySignature toy_babyjub pk0 [1, 2, 3] (replicate 64 1) = (False, None)
   \<and> snd (VerifySignatureElem toy_babyjub (replicate 32 255) 5 (replicate 64 1)) \<noteq> None
   \<and> snd (VerifySignature toy_babyjub pk0 [1, 2, 3] (replicate 64 255)) \<noteq> None"
proof -
  note a = VerifySignature_false_without_error
      [of toy_babyjub pk0 pk0 "replicate 64 1" "replicate 64 1" 5 "[1, 2, 3]"]
  note b = VerifySignature_false_without_error
      [of toy_babyjub "replicate 32 255" _ "replicate 64 1" _ 5 "[1, 2, 3]"]
  note c = VerifySignature_false_without_error
      [of toy_babyjub pk0 _ "replicate 64 255" _ 5 "[1, 2, 3]"]
  have 1: "VerifySignatureElem toy_babyjub pk0 5 (replicate 64 1) = (False, None)"
    and 2: "VerifySignature toy_babyjub pk0 [1, 2, 3] (replicate 64 1) = (False, None)"
    using a toy_Decompress_runs(1,2) toy_Verify_runs by simp_all
  have 3: "snd (VerifySignatureElem toy_babyjub (replicate 32 255) 5 (replicate 64 1)) \<noteq> None"
    using b toy_Decompress_runs(3) by blast
  have 4: "snd (VerifySignature toy_babyjub pk0 [1, 2, 3] (replicate 64 255)) \<noteq> None"
    using c toy_Decompress_runs(4) by blast
  from 1 2 3 4 show ?thesis by blast
qed

section \<open>C10: the length of a decrypted key\<close>

text \<open>
  C10. \<open>UnlockKey\<close> does not check the length of the decrypted plaintext. For every stored
  record that decrypts, to a plaintext of any length, \<open>UnlockKey\<close> succeeds and the cache
  points to a new 32-byte cell that holds the first 32 bytes of the plaintext, or all of
  it followed by zeros when it is shorter.
\<close>

theorem UnlockKey_no_length_check:
  assumes "map_of (encryptedKeys ks) pk = Some encryptedKey"
    and "DecryptData C encryptedKey pass = Inr skBuf"
  shows "UnlockKey C pk pass ks h =
           (None, ks\<lparr>cache := AList.update pk (length h) (cache ks)\<rparr>,
            h @ [take 32 skBuf @ replicate (32 - length skBuf) 0])
       \<and> map_of (AList.update pk (length h) (cache ks)) pk = Some (length h)
       \<and> length (take 32 skBuf @ replicate (32 - length skBuf) 0) = 32"
  using assms by (auto simp: UnlockKey_def go_copy_zero_array update_Some_unfold)

theorem UnlockKey_no_length_check_witness:
  "UnlockKey toy_crypto pk0 pass0 (ks1 [1, 2, 3]) []
     = (None, (ks1 [1, 2, 3])\<lparr>cache := [(pk0, 0)]\<rparr>, [[1, 2, 3] @ replicate 29 0])
   \<and> UnlockKey toy_crypto pk0 pass0 (ks1 (replicate 40 9)) []
     = (None, (ks1 (replicate 40 9))\<lparr>cache := [(pk0, 0)]\<rparr>, [replicate 32 9])"
  using UnlockKey_no_length_check [of "ks1 [1, 2, 3]" pk0 "rec0 [1, 2, 3]"
      toy_crypto pass0 "[1, 2, 3]" "[]", OF _ DecryptData_toy]
    UnlockKey_no_length_check [of "ks1 (replicate 40 9)" pk0
      "rec0 (replicate 40 9)" toy_crypto pass0 "replicate 40 9" "[]", OF _ DecryptData_toy]
  by (simp add: ks1_def ks0_def)

end
